theory Spec2Isabelle
  imports Complex_Main "HOL-Library.Sublist"
begin

section \<open>Strings as Python's \<open>str\<close> methods use them\<close>

text \<open>
  The source is \<^verbatim>\<open>Scripts/app_imac_pro.py\<close>. Strings are lists of characters. The
  case mappings follow \<^verbatim>\<open>str.upper\<close> and \<^verbatim>\<open>str.lower\<close> on ASCII text: the
  letters \<open>a\<close>..\<open>z\<close> (codes 97..122) and \<open>A\<close>..\<open>Z\<close> (codes 65..90) are exchanged,
  every other character is left as it is.
\<close>

definition upper_char :: "char \<Rightarrow> char" where
  "upper_char c =
     (let n = (of_char c :: nat) in if 97 \<le> n \<and> n \<le> 122 then char_of (n - 32) else c)"

definition lower_char :: "char \<Rightarrow> char" where
  "lower_char c =
     (let n = (of_char c :: nat) in if 65 \<le> n \<and> n \<le> 90 then char_of (n + 32) else c)"

definition upper :: "string \<Rightarrow> string" where
  "upper s = map upper_char s"

definition lower :: "string \<Rightarrow> string" where
  "lower s = map lower_char s"

text \<open>\<^verbatim>\<open>a in b\<close> on strings: \<open>a\<close> is a contiguous piece of \<open>b\<close>.\<close>

fun py_in :: "string \<Rightarrow> string \<Rightarrow> bool" where
  "py_in a [] = (a = [])"
| "py_in a (y # ys) = (take (length a) (y # ys) = a \<or> py_in a ys)"

text \<open>\<^verbatim>\<open>s.endswith(suf)\<close>, and \<^verbatim>\<open>s.endswith((suf1, suf2, ...))\<close> with a tuple.\<close>

definition endswith1 :: "string \<Rightarrow> string \<Rightarrow> bool" where
  "endswith1 s suf = (length suf \<le> length s \<and> drop (length s - length suf) s = suf)"

definition endswith :: "string \<Rightarrow> string list \<Rightarrow> bool" where
  "endswith s sufs = list_ex (endswith1 s) sufs"

text \<open>
  \<^verbatim>\<open>s.strip()\<close>: the white space of ASCII (tab, line feed, vertical tab, form feed,
  carriage return, the separators 28..31 and the blank) is removed at both ends.
\<close>

definition is_space :: "char \<Rightarrow> bool" where
  "is_space c = (let n = (of_char c :: nat) in (9 \<le> n \<and> n \<le> 13) \<or> (28 \<le> n \<and> n \<le> 32))"

definition strip :: "string \<Rightarrow> string" where
  "strip s = rev (dropWhile is_space (rev (dropWhile is_space s)))"


section \<open>The link scraper \<open>obter_links_download\<close>\<close>

text \<open>
  An anchor of the parsed page, as \<^verbatim>\<open>soup.find_all('a', href=True)\<close> returns it:
  \<open>href\<close> is \<^verbatim>\<open>link['href']\<close> and \<open>get_text\<close> is \<^verbatim>\<open>link.get_text()\<close>.
\<close>

record anchor =
  href :: string
  get_text :: string

text \<open>
  One entry of \<^verbatim>\<open>tarefas\<close>. \<open>url_tarefa\<close> is the key \<^verbatim>\<open>'url'\<close>; the dictionary
  \<^verbatim>\<open>'alvos'\<close> is the list of its items in insertion order, which is the order
  \<^verbatim>\<open>.items()\<close> iterates in.
\<close>

record tarefa =
  nome :: string
  url_tarefa :: string
  alvos :: "(string \<times> string) list"

text \<open>The dictionary appended to \<^verbatim>\<open>links_para_baixar\<close> (lines 91 to 95).\<close>

record item =
  url :: string
  filename :: string
  origem :: string

text \<open>
  What the two calls at the head of the \<^verbatim>\<open>try\<close> block do: \<^verbatim>\<open>requests.get\<close>
  raises (network error, timeout), or \<^verbatim>\<open>r.raise_for_status()\<close> raises, or the page
  arrives and is parsed into its anchors in document order.
\<close>

datatype pagina = Get_raises | Status_raises | Pagina "anchor list"

datatype erro_varredura = RequestException | HTTPError

text \<open>
  The network is a parameter: \<open>web k u\<close> is the answer to the \<open>k\<close>-th request of the
  scan (counted from 0), sent to the address \<open>u\<close>. \<^verbatim>\<open>urljoin\<close> of the standard
  library is a parameter too.
\<close>

type_synonym web = "nat \<Rightarrow> string \<Rightarrow> pagina"

type_synonym urljoin = "string \<Rightarrow> string \<Rightarrow> string"

text \<open>Lines 86 to 89: the test of one anchor against one term.\<close>

definition match_found :: "string \<Rightarrow> anchor \<Rightarrow> bool" where
  "match_found termo link =
     (py_in (upper termo) (upper (href link)) \<or>
      py_in (upper termo) (upper (strip (get_text link))))"

definition is_zip :: "anchor \<Rightarrow> bool" where
  "is_zip link = endswith (lower (href link)) [''.zip'', ''.rar'']"

text \<open>
  Lines 81 to 96: the loop over the anchors for one term. The first anchor that passes
  the test is appended and the loop is left (\<^verbatim>\<open>break\<close>).
\<close>

fun procurar ::
  "urljoin \<Rightarrow> tarefa \<Rightarrow> string \<Rightarrow> string \<Rightarrow> anchor list \<Rightarrow> item list \<Rightarrow> item list" where
  "procurar uj t termo nome_final [] links_para_baixar = links_para_baixar"
| "procurar uj t termo nome_final (link # links) links_para_baixar =
     (if match_found termo link \<and> is_zip link
      then links_para_baixar @
             [\<lparr>url = uj (url_tarefa t) (href link), filename = nome_final, origem = nome t\<rparr>]
      else procurar uj t termo nome_final links links_para_baixar)"

text \<open>Line 80: the loop over \<^verbatim>\<open>tarefa['alvos'].items()\<close>.\<close>

fun por_alvos ::
  "urljoin \<Rightarrow> tarefa \<Rightarrow> (string \<times> string) list \<Rightarrow> anchor list \<Rightarrow> item list \<Rightarrow> item list" where
  "por_alvos uj t [] links links_para_baixar = links_para_baixar"
| "por_alvos uj t ((termo, nome_final) # resto) links links_para_baixar =
     por_alvos uj t resto links (procurar uj t termo nome_final links links_para_baixar)"

text \<open>
  The state of the scan: the list being built, the addresses requested so far, and the
  errors handed to \<^verbatim>\<open>logger.error\<close>.
\<close>

record varredura =
  links_para_baixar :: "item list"
  pedidos :: "string list"
  erros :: "(string \<times> erro_varredura) list"

text \<open>
  Lines 74 to 96, the body of the \<^verbatim>\<open>try\<close>: the exception raised, if any, and the
  state at that moment.
\<close>

definition tentar :: "web \<Rightarrow> urljoin \<Rightarrow> tarefa \<Rightarrow> varredura \<Rightarrow> erro_varredura option \<times> varredura" where
  "tentar web uj t s =
     (let s1 = s\<lparr>pedidos := pedidos s @ [url_tarefa t]\<rparr> in
      case web (length (pedidos s)) (url_tarefa t) of
        Get_raises \<Rightarrow> (Some RequestException, s1)
      | Status_raises \<Rightarrow> (Some HTTPError, s1)
      | Pagina links \<Rightarrow>
          (None, s1\<lparr>links_para_baixar := por_alvos uj t (alvos t) links (links_para_baixar s1)\<rparr>))"

text \<open>
  Lines 73 to 100: the loop over \<^verbatim>\<open>tarefas\<close>; the \<^verbatim>\<open>except\<close> clause logs the
  error and goes on with the next entry.
\<close>

fun varrer :: "web \<Rightarrow> urljoin \<Rightarrow> tarefa list \<Rightarrow> varredura \<Rightarrow> varredura" where
  "varrer web uj [] s = s"
| "varrer web uj (t # ts) s =
     (case tentar web uj t s of
        (Some e, s') \<Rightarrow> varrer web uj ts (s'\<lparr>erros := erros s' @ [(url_tarefa t, e)]\<rparr>)
      | (None, s') \<Rightarrow> varrer web uj ts s')"

definition varredura_inicial :: varredura where
  "varredura_inicial = \<lparr>links_para_baixar = [], pedidos = [], erros = []\<rparr>"

text \<open>Lines 52 to 69: the configuration the function carries.\<close>

definition tarefas :: "tarefa list" where
  "tarefas =
     [\<lparr>nome = ''LICENCIAMENTO'',
       url_tarefa = ''https://imac.ac.gov.br/licenciamento/'',
       alvos = [(''SUPRESSAO'', ''imac_supressao.zip''),
                (''USO-ALTERNATIVO'', ''imac_uso_alternativo.zip'')]\<rparr>,
      \<lparr>nome = ''FISCALIZACAO'',
       url_tarefa = ''https://imac.ac.gov.br/fiscalizacao-autuacoes/'',
       alvos = [(''Embargos_Adm_IMAC_2025'', ''imac_embargos_2025.zip''),
                (''Embargos_adm_IMAC_2024'', ''imac_embargos_2024.zip'')]\<rparr>]"

text \<open>
  The scan of any list of entries, and \<^verbatim>\<open>obter_links_download\<close> itself, which scans
  \<open>tarefas\<close> and returns the list.
\<close>

definition resolver :: "web \<Rightarrow> urljoin \<Rightarrow> tarefa list \<Rightarrow> item list" where
  "resolver web uj ts = links_para_baixar (varrer web uj ts varredura_inicial)"

definition obter_links_download :: "web \<Rightarrow> urljoin \<Rightarrow> item list" where
  "obter_links_download web uj = resolver web uj tarefas"


section \<open>The download pipeline \<open>processar_downloads\<close>\<close>

text \<open>
  What one pass through the \<^verbatim>\<open>try\<close> block of lines 125 to 133 does, stage by stage:
  \<^verbatim>\<open>requests.get\<close> raises; \<^verbatim>\<open>r.raise_for_status()\<close> raises; \<^verbatim>\<open>open(path_destino, 'wb')\<close>
  raises; \<^verbatim>\<open>shutil.copyfileobj\<close> raises after the file was opened (and so emptied) and
  the given bytes were written; or the whole body is copied.
\<close>

datatype download =
  Get_failed | Status_failed | Open_failed | Copy_failed string | Copied string

text \<open>\<open>rede k u\<close> is what happens to the \<open>k\<close>-th download, from the address \<open>u\<close>.\<close>

type_synonym rede = "nat \<Rightarrow> string \<Rightarrow> download"

text \<open>
  The two lines appended to \<^verbatim>\<open>log_execucao\<close>: the success line carries the file name
  and \<^verbatim>\<open>item['origem']\<close> (line 132), the failure line the file name (line 136).
\<close>

datatype linha = Sucesso string string | Falha string

datatype erro = ZeroDivisionError | StreamlitAPIException

text \<open>
  The state of a run: the files of \<^verbatim>\<open>download_dir\<close> by name, the log, the counter and
  the values handed to \<^verbatim>\<open>progresso.progress\<close>.
\<close>

record execucao =
  arquivos :: "string \<rightharpoonup> string"
  log_execucao :: "linha list"
  sucesso_count :: nat
  progresso :: "rat list"

text \<open>Lines 121 to 137: one link, with the \<^verbatim>\<open>except\<close> clause.\<close>

definition tentar_download :: "download \<Rightarrow> item \<Rightarrow> execucao \<Rightarrow> execucao" where
  "tentar_download d it s =
     (let fname = filename it;
          falha = log_execucao s @ [Falha fname] in
      case d of
        Get_failed \<Rightarrow> s\<lparr>log_execucao := falha\<rparr>
      | Status_failed \<Rightarrow> s\<lparr>log_execucao := falha\<rparr>
      | Open_failed \<Rightarrow> s\<lparr>log_execucao := falha\<rparr>
      | Copy_failed parcial \<Rightarrow>
          s\<lparr>arquivos := (arquivos s)(fname \<mapsto> parcial), log_execucao := falha\<rparr>
      | Copied corpo \<Rightarrow>
          s\<lparr>arquivos := (arquivos s)(fname \<mapsto> corpo),
            log_execucao := log_execucao s @ [Sucesso fname (origem it)],
            sucesso_count := sucesso_count s + 1\<rparr>)"

text \<open>
  Line 139, outside the \<^verbatim>\<open>try\<close>: the division raises when the list is empty, and
  \<^verbatim>\<open>progress\<close> refuses a value outside the interval from 0 to 1.
\<close>

definition atualizar_progresso :: "nat \<Rightarrow> nat \<Rightarrow> execucao \<Rightarrow> erro + execucao" where
  "atualizar_progresso idx n s =
     (if n = 0 then Inl ZeroDivisionError
      else let v = (of_nat (idx + 1) / of_nat n :: rat) in
           if v < 0 \<or> 1 < v then Inl StreamlitAPIException
           else Inr (s\<lparr>progresso := progresso s @ [v]\<rparr>))"

text \<open>
  Lines 120 to 139: the loop over \<^verbatim>\<open>enumerate(lista_links)\<close>; \<open>n\<close> is
  \<^verbatim>\<open>len(lista_links)\<close>.
\<close>

fun baixar :: "rede \<Rightarrow> nat \<Rightarrow> nat \<Rightarrow> item list \<Rightarrow> execucao \<Rightarrow> erro + execucao" where
  "baixar net n idx [] s = Inr s"
| "baixar net n idx (it # resto) s =
     (case atualizar_progresso idx n (tentar_download (net idx (url it)) it s) of
        Inl e \<Rightarrow> Inl e
      | Inr s' \<Rightarrow> baixar net n (Suc idx) resto s')"

definition execucao_inicial :: execucao where
  "execucao_inicial =
     \<lparr>arquivos = Map.empty, log_execucao = [], sucesso_count = 0, progresso = [0]\<rparr>"

text \<open>
  \<^verbatim>\<open>datetime.now()\<close> to the minute, and \<^verbatim>\<open>strftime("%Y%m%d_%H%M")\<close>: each field in
  decimal, padded with zeros to its width.
\<close>

record datetime =
  year :: nat
  month :: nat
  day :: nat
  hour :: nat
  minute :: nat

fun decimal :: "nat \<Rightarrow> string" where
  "decimal n = (if n < 10 then [char_of (48 + n)]
                else decimal (n div 10) @ [char_of (48 + n mod 10)])"

definition zfill :: "nat \<Rightarrow> string \<Rightarrow> string" where
  "zfill w s = replicate (w - length s) (CHR ''0'') @ s"

definition strftime :: "datetime \<Rightarrow> string" where
  "strftime d =
     zfill 4 (decimal (year d)) @ zfill 2 (decimal (month d)) @ zfill 2 (decimal (day d)) @
     ''_'' @ zfill 2 (decimal (hour d)) @ zfill 2 (decimal (minute d))"

text \<open>
  \<^verbatim>\<open>shutil.make_archive(base_name, 'zip', root_dir)\<close> writes the files of \<open>root_dir\<close>
  into \<open>base_name\<close> with the extension added and returns that path;
  \<^verbatim>\<open>os.path.basename\<close> (line 192) is what follows the last slash.
\<close>

definition make_archive :: "string \<Rightarrow> string" where
  "make_archive base_name = base_name @ ''.zip''"

definition basename :: "string \<Rightarrow> string" where
  "basename p = rev (takeWhile (\<lambda>c. c \<noteq> CHR ''/'') (rev p))"

text \<open>
  The tuple returned at line 152, under the names the caller gives its parts (line 178),
  together with the content of the archive written at \<open>zip_path\<close>.
\<close>

record resultado =
  zip_path :: string
  logs :: "linha list"
  temp_folder :: string
  zip_conteudo :: "string \<rightharpoonup> string"

text \<open>
  \<open>agora\<close> is the clock read at line 142 and \<open>temp_dir\<close> the fresh directory of
  \<^verbatim>\<open>tempfile.mkdtemp()\<close>; \<^verbatim>\<open>download_dir\<close> is created empty inside it.
\<close>

definition processar_downloads :: "rede \<Rightarrow> datetime \<Rightarrow> string \<Rightarrow> item list \<Rightarrow> erro + resultado" where
  "processar_downloads net agora temp_dir lista_links =
     (case baixar net (length lista_links) 0 lista_links execucao_inicial of
        Inl e \<Rightarrow> Inl e
      | Inr s \<Rightarrow>
          (let timestamp = strftime agora;
               nome_zip = ''Geodata_IMAC_'' @ timestamp;
               caminho_zip = make_archive (temp_dir @ ''/'' @ nome_zip)
           in Inr \<lparr>zip_path = caminho_zip, logs = log_execucao s, temp_folder = temp_dir,
                   zip_conteudo = arquivos s\<rparr>))"


section \<open>The discovery cache\<close>

text \<open>
  Modelled from the spec: the decorator \<^verbatim>\<open>st.cache_data(ttl=3600)\<close> of line 43 is
  Streamlit's and its code is not among the sources. Sections 3 and 4.2 of the
  specification describe it: one entry holding the result, the time it was computed at and
  the time to live; the entry is invalid when \<open>now - computedAt > ttlSeconds\<close>; a valid
  entry is returned without any network activity; otherwise the scraper runs, the new
  result is stored with the current time, and it is returned. Besides the result,
  \<open>getLinks\<close> returns the requests it sent and the cache after the call.
\<close>

record cache_entry =
  result :: "item list"
  computedAt :: int
  ttlSeconds :: int

definition expired :: "int \<Rightarrow> cache_entry \<Rightarrow> bool" where
  "expired now e = (now - computedAt e > ttlSeconds e)"

definition ttl :: int where
  "ttl = 3600"

definition recompute :: "web \<Rightarrow> urljoin \<Rightarrow> int \<Rightarrow> item list \<times> string list \<times> cache_entry option" where
  "recompute web uj now =
     (let s = varrer web uj tarefas varredura_inicial in
      (links_para_baixar s, pedidos s,
       Some \<lparr>result = links_para_baixar s, computedAt = now, ttlSeconds = ttl\<rparr>))"

definition getLinks ::
  "web \<Rightarrow> urljoin \<Rightarrow> int \<Rightarrow> cache_entry option \<Rightarrow> item list \<times> string list \<times> cache_entry option" where
  "getLinks web uj now c =
     (case c of
        None \<Rightarrow> recompute web uj now
      | Some e \<Rightarrow> if expired now e then recompute web uj now else (result e, [], Some e))"


section \<open>The words of the specification\<close>








text \<open>
  The result ordering of section 4.1: source by source in the order of the sequence, and
  within a source term by term, each term giving the link of its first matching anchor
  or nothing; a source whose page did not arrive gives nothing.
\<close>

definition resolved :: "urljoin \<Rightarrow> tarefa \<Rightarrow> string \<Rightarrow> anchor \<Rightarrow> item" where
  "resolved uj t nome_final a =
     \<lparr>url = uj (url_tarefa t) (href a), filename = nome_final, origem = nome t\<rparr>"

definition spec_links_termo :: "urljoin \<Rightarrow> tarefa \<Rightarrow> anchor list \<Rightarrow> string \<times> string \<Rightarrow> item list" where
  "spec_links_termo uj t links alvo =
     (case find (\<lambda>a. match_found (fst alvo) a \<and> is_zip a) links of
        None \<Rightarrow> []
      | Some a \<Rightarrow> [resolved uj t (snd alvo) a])"

definition spec_links_tarefa :: "urljoin \<Rightarrow> tarefa \<Rightarrow> pagina \<Rightarrow> item list" where
  "spec_links_tarefa uj t p =
     (case p of
        Pagina links \<Rightarrow> concat (map (spec_links_termo uj t links) (alvos t))
      | _ \<Rightarrow> [])"

definition spec_resolver :: "web \<Rightarrow> urljoin \<Rightarrow> tarefa list \<Rightarrow> item list" where
  "spec_resolver web uj ts =
     concat (map (\<lambda>(k, t). spec_links_tarefa uj t (web k (url_tarefa t))) (enumerate 0 ts))"

text \<open>
  The archive name of section 8, property 8: \<open>Geodata_IMAC_\<close>, eight digits, an
  underscore, four digits, \<open>.zip\<close>. \<open>valor\<close> reads a string of digits as a number.
\<close>

definition is_digit :: "char \<Rightarrow> bool" where
  "is_digit c = (let n = (of_char c :: nat) in 48 \<le> n \<and> n \<le> 57)"

definition valor :: "string \<Rightarrow> nat" where
  "valor s = foldl (\<lambda>v c. 10 * v + (of_char c - 48)) 0 s"

definition nome_padrao :: "string \<Rightarrow> bool" where
  "nome_padrao s =
     (length s = 30 \<and> take 13 s = ''Geodata_IMAC_'' \<and>
      list_all is_digit (take 8 (drop 13 s)) \<and> take 1 (drop 21 s) = ''_'' \<and>
      list_all is_digit (take 4 (drop 22 s)) \<and> drop 26 s = ''.zip'')"

text \<open>
  A clock reading whose year has four digits, as every reading of \<^verbatim>\<open>datetime.now()\<close>
  on a running system has.
\<close>

definition relogio :: "datetime \<Rightarrow> bool" where
  "relogio d =
     (1000 \<le> year d \<and> year d \<le> 9999 \<and> 1 \<le> month d \<and> month d \<le> 12 \<and>
      1 \<le> day d \<and> day d \<le> 31 \<and> hour d < 24 \<and> minute d < 60)"

text \<open>
  A download wrote into its file when the file was opened; it succeeded when the whole
  body was copied.
\<close>

definition abriu :: "download \<Rightarrow> bool" where
  "abriu d = (case d of Copy_failed _ \<Rightarrow> True | Copied _ \<Rightarrow> True | _ \<Rightarrow> False)"

definition escrito :: "download \<Rightarrow> string" where
  "escrito d = (case d of Copy_failed p \<Rightarrow> p | Copied b \<Rightarrow> b | _ \<Rightarrow> [])"

definition sucesso :: "download \<Rightarrow> bool" where
  "sucesso d = (case d of Copied _ \<Rightarrow> True | _ \<Rightarrow> False)"

definition linha_de :: "download \<Rightarrow> item \<Rightarrow> linha" where
  "linha_de d it = (if sucesso d then Sucesso (filename it) (origem it) else Falha (filename it))"

definition is_sucesso :: "linha \<Rightarrow> bool" where
  "is_sucesso l = (case l of Sucesso _ _ \<Rightarrow> True | Falha _ \<Rightarrow> False)"


text \<open>
  What happens to each download of a run: the links of the list, in order, each with the
  outcome of its request; the link at position \<open>k\<close> is the \<open>k\<close>-th request.
\<close>

definition tentativas_desde :: "rede \<Rightarrow> nat \<Rightarrow> item list \<Rightarrow> (item \<times> download) list" where
  "tentativas_desde net idx links =
     map (\<lambda>(k, it). (it, net k (url it))) (enumerate idx links)"

definition tentativas :: "rede \<Rightarrow> item list \<Rightarrow> (item \<times> download) list" where
  "tentativas net links = tentativas_desde net 0 links"

text \<open>
  The scratch directory after a sequence of downloads: every download that opened its
  file leaves there what it wrote, under the file name of its link.
\<close>

fun gravar :: "(item \<times> download) list \<Rightarrow> (string \<rightharpoonup> string) \<Rightarrow> (string \<rightharpoonup> string)" where
  "gravar [] m = m"
| "gravar ((it, d) # r) m =
     gravar r (if abriu d then m(filename it \<mapsto> escrito d) else m)"

section \<open>Example inputs\<close>

text \<open>
  Concrete pages and entries on which the theorems below are instantiated.
  \<open>junta\<close> stands in for \<^verbatim>\<open>urljoin\<close> there: it glues the href to the page address.
\<close>

definition junta :: urljoin where
  "junta base h = base @ h"

definition a_sup :: anchor where
  "a_sup = \<lparr>href = ''media/Supressao_2024.ZIP'', get_text = '' Baixar ''\<rparr>"

definition a_sup2 :: anchor where
  "a_sup2 = \<lparr>href = ''media/antigo.rar'', get_text = ''supressao (antigo)''\<rparr>"



definition t_um :: tarefa where
  "t_um = \<lparr>nome = ''LICENCIAMENTO'', url_tarefa = ''https://imac.ac.gov.br/licenciamento/'',
           alvos = [(''SUPRESSAO'', ''imac_supressao.zip'')]\<rparr>"

definition t_dois :: tarefa where
  "t_dois = \<lparr>nome = ''LICENCIAMENTO'', url_tarefa = ''https://imac.ac.gov.br/licenciamento/'',
             alvos = [(''SUPRESSAO'', ''imac_supressao.zip''), (''2024'', ''imac_2024.zip''),
                      (''EMBARGOS'', ''imac_embargos.zip'')]\<rparr>"


definition web_falha :: web where
  "web_falha k u = (if k = 0 then Get_raises else Pagina [a_sup, a_sup2])"


section \<open>Matching, character by character\<close>



lemma char_eq_code: "(c = d) = ((of_char c :: nat) = of_char d)"
  by simp
















section \<open>The scan, loop by loop\<close>

lemma procurar_find:
  "procurar uj t termo nf links acc = acc @ spec_links_termo uj t links (termo, nf)"
  by (induction links) (simp_all add: spec_links_termo_def resolved_def)

lemma por_alvos_concat:
  "por_alvos uj t al links acc = acc @ concat (map (spec_links_termo uj t links) al)"
  by (induction al arbitrary: acc) (auto simp: procurar_find)

lemma tentar_links:
  "links_para_baixar (snd (tentar web uj t s)) =
     links_para_baixar s @ spec_links_tarefa uj t (web (length (pedidos s)) (url_tarefa t))"
  by (simp add: tentar_def spec_links_tarefa_def por_alvos_concat Let_def split: pagina.splits)

lemma tentar_pedidos:
  "pedidos (snd (tentar web uj t s)) = pedidos s @ [url_tarefa t]"
  by (simp add: tentar_def Let_def split: pagina.splits)

lemma varrer_pedidos:
  "pedidos (varrer web uj ts s) = pedidos s @ map url_tarefa ts"
proof (induction ts arbitrary: s)
  case Nil
  show ?case by simp
next
  case (Cons t ts)
  obtain e s' where ts: "tentar web uj t s = (e, s')" by (cases "tentar web uj t s")
  have p: "pedidos s' = pedidos s @ [url_tarefa t]" using tentar_pedidos [of web uj t s] ts by simp
  show ?case using ts p Cons.IH by (cases e) simp_all
qed

lemma varrer_links:
  "links_para_baixar (varrer web uj ts s) =
     links_para_baixar s @
     concat (map (\<lambda>(k, t). spec_links_tarefa uj t (web k (url_tarefa t)))
                 (enumerate (length (pedidos s)) ts))"
proof (induction ts arbitrary: s)
  case Nil
  show ?case by simp
next
  case (Cons t ts)
  obtain e s' where ts: "tentar web uj t s = (e, s')" by (cases "tentar web uj t s")
  have p: "pedidos s' = pedidos s @ [url_tarefa t]" using tentar_pedidos [of web uj t s] ts by simp
  have l: "links_para_baixar s' =
     links_para_baixar s @ spec_links_tarefa uj t (web (length (pedidos s)) (url_tarefa t))"
    using tentar_links [of web uj t s] ts by simp
  show ?case using ts p l Cons.IH by (cases e) simp_all
qed

lemma resolver_spec: "resolver web uj ts = spec_resolver web uj ts"
  by (simp add: resolver_def spec_resolver_def varrer_links varredura_inicial_def)


section \<open>Facts about lists used below\<close>



lemma enumerate_shift:
  "map (\<lambda>(k, t). F k t) (enumerate (n + m) ys) = map (\<lambda>(k, t). F (m + k) t) (enumerate n ys)"
proof (induction ys arbitrary: n)
  case Nil
  show ?case by simp
next
  case (Cons y ys)
  have "map (\<lambda>(k, t). F k t) (enumerate (Suc n + m) ys) =
        map (\<lambda>(k, t). F (m + k) t) (enumerate (Suc n) ys)"
    by (rule Cons.IH)
  then show ?case by (simp add: add.commute)
qed

lemma spec_resolver_append:
  "spec_resolver web uj (xs @ ys) =
     spec_resolver web uj xs @ spec_resolver (\<lambda>j. web (length xs + j)) uj ys"
proof -
  have "map (\<lambda>(k, t). spec_links_tarefa uj t (web k (url_tarefa t))) (enumerate (0 + length xs) ys) =
        map (\<lambda>(k, t). spec_links_tarefa uj t (web (length xs + k) (url_tarefa t))) (enumerate 0 ys)"
    by (rule enumerate_shift)
  then show ?thesis
    by (simp add: spec_resolver_def enumerate_append_eq)
qed

lemma spec_resolver_single:
  "spec_resolver web uj [t] = spec_links_tarefa uj t (web 0 (url_tarefa t))"
  by (simp add: spec_resolver_def)



section \<open>The claims about the link scraper\<close>

text \<open>
  Claim C2. When the page request of one source fails, by a network error or by the status
  check, the scan yields no link for that source, goes on, and its result is the links of
  the sources before it followed by the links of the sources after it; every source is
  requested once. The result is a list: the function has no error result.
\<close>

theorem source_isolation:
  assumes "k < length ts"
    and "web k (url_tarefa (ts ! k)) = Get_raises \<or> web k (url_tarefa (ts ! k)) = Status_raises"
  shows "resolver web uj ts =
           resolver web uj (take k ts) @ resolver (\<lambda>j. web (Suc k + j)) uj (drop (Suc k) ts) \<and>
         pedidos (varrer web uj ts varredura_inicial) = map url_tarefa ts"
proof -
  have ts: "ts = take k ts @ [ts ! k] @ drop (Suc k) ts"
    using assms(1) by (simp add: id_take_nth_drop)
  have len: "length (take k ts) = k" using assms(1) by simp
  have none: "spec_links_tarefa uj (ts ! k) (web k (url_tarefa (ts ! k))) = []"
    using assms(2) by (auto simp: spec_links_tarefa_def)
  have "spec_resolver web uj (take k ts @ [ts ! k] @ drop (Suc k) ts) =
        spec_resolver web uj (take k ts) @
        spec_resolver (\<lambda>j. web (k + j)) uj ([ts ! k] @ drop (Suc k) ts)"
    using spec_resolver_append [of web uj "take k ts" "[ts ! k] @ drop (Suc k) ts"]
    by (simp only: len)
  also have "spec_resolver (\<lambda>j. web (k + j)) uj ([ts ! k] @ drop (Suc k) ts) =
        spec_resolver (\<lambda>j. web (k + j)) uj [ts ! k] @
        spec_resolver (\<lambda>j. web (k + (1 + j))) uj (drop (Suc k) ts)"
    using spec_resolver_append [of "\<lambda>j. web (k + j)" uj "[ts ! k]" "drop (Suc k) ts"]
    by simp
  also have "spec_resolver (\<lambda>j. web (k + j)) uj [ts ! k] = []"
    using none by (simp add: spec_resolver_single)
  finally have "spec_resolver web uj ts =
      spec_resolver web uj (take k ts) @ spec_resolver (\<lambda>j. web (Suc k + j)) uj (drop (Suc k) ts)"
    using ts by simp
  then show ?thesis
    by (simp add: resolver_spec varrer_pedidos varredura_inicial_def)
qed

theorem source_isolation_witness:
  "resolver web_falha junta [t_dois, t_um] =
     [resolved junta t_um ''imac_supressao.zip'' a_sup] \<and>
   pedidos (varrer web_falha junta [t_dois, t_um] varredura_inicial) =
     [url_tarefa t_dois, url_tarefa t_um]"
proof -
  have h1: "0 < length [t_dois, t_um]" by simp
  have h2: "web_falha 0 (url_tarefa ([t_dois, t_um] ! 0)) = Get_raises \<or>
            web_falha 0 (url_tarefa ([t_dois, t_um] ! 0)) = Status_raises"
    by (simp add: web_falha_def)
  have e: "resolver (\<lambda>j. web_falha (Suc 0 + j)) junta [t_um] =
     [resolved junta t_um ''imac_supressao.zip'' a_sup]"
    by code_simp
  have n: "resolver web_falha junta [] = []"
    by (simp add: resolver_def varredura_inicial_def)
  show ?thesis
    using source_isolation [where web = web_falha and k = 0 and ts = "[t_dois, t_um]"
          and uj = junta, OF h1 h2] e n
    by simp
qed











end
